theory Spec2Isabelle
  imports Main
begin

section \<open>Python values, JSON bodies and exceptions\<close>

text \<open>
  The adapter \<^verbatim>\<open>api_builtins.py\<close> turns HTTP requests into calls on a
  \<^verbatim>\<open>Connection\<close> object and shapes the answers as JSON. The Python values that travel
  through it are what \<^verbatim>\<open>json.loads\<close> and the form decoder produce: \<^verbatim>\<open>None\<close>, booleans,
  integers, floats, strings, lists and dictionaries. The type \<open>'t\<close> is Python's float, never
  computed on here. A \<open>string\<close> holds the UTF-8 bytes of a Python \<^verbatim>\<open>str\<close>.
\<close>

datatype 't pyval =
    PNone
  | PBool bool
  | PInt int
  | PFloat 't
  | PStr string
  | PList "'t pyval list"
  | PDict "(string \<times> 't pyval) list"

text \<open>A JSON body of a response.\<close>

datatype 't json = JNull | JStr string | JNum 't | JObj "(string \<times> 't json) list"

text \<open>
  Exceptions are values. \<open>HTTPException\<close> is what \<^verbatim>\<open>flask_restful.abort\<close> and
  werkzeug's \<^verbatim>\<open>BadRequest\<close> raise: a status code and a JSON body.
\<close>

datatype 't exn = HTTPException nat "'t json" | TypeError string | KeyError string

record 't response =
  status :: nat
  body :: "'t json"

text \<open>\<^verbatim>\<open>flask_restful.abort(code, message=...)\<close>\<close>

definition abort :: "nat \<Rightarrow> 't json \<Rightarrow> 't exn" where
  "abort code message = HTTPException code (JObj [(''message'', message)])"

text \<open>
  What Flask-RESTful sends for the outcome of a resource method: a returned dictionary is
  status 200, an \<open>HTTPException\<close> is its own status and body, any other exception is 500.
\<close>

fun respond :: "'t exn + 't json \<Rightarrow> 't response" where
  "respond (Inr b) = \<lparr>status = 200, body = b\<rparr>"
| "respond (Inl (HTTPException code b)) = \<lparr>status = code, body = b\<rparr>"
| "respond (Inl _) = \<lparr>status = 500, body = JObj [(''message'', JStr ''Internal Server Error'')]\<rparr>"

section \<open>Python's built-in \<^verbatim>\<open>str\<close>, \<^verbatim>\<open>int\<close> and \<^verbatim>\<open>bool\<close>\<close>

text \<open>
  The parser converts each supplied value with one of these built-ins. What they do is
  written out where it is the same in every Python; the rest is a parameter, the runtime:
  \<^item> \<open>str_other\<close>: \<^verbatim>\<open>str(v)\<close> of a value that is not a string (its printed form);
  \<^item> \<open>int_non_ascii\<close>: \<^verbatim>\<open>int(s)\<close> of a string that is not pure ASCII, which goes through the
    Unicode tables of decimal digits and blanks (\<open>None\<close> when it raises);
  \<^item> \<open>max_str_digits\<close>: the limit on the digits of a string given to \<^verbatim>\<open>int\<close> (4300 by
    default since Python 3.11, 0 for no limit, as before 3.11);
  \<^item> \<open>float_trunc\<close>: \<^verbatim>\<open>int(x)\<close> of a float (\<open>None\<close> for a NaN or an infinity, which raise);
  \<^item> \<open>float_nonzero\<close>: \<^verbatim>\<open>bool(x)\<close> of a float;
  \<^item> \<open>exc_text\<close>: the text of the exception a failed conversion raises;
  \<^item> \<open>iter_other\<close>: the elements of a value that is not a list, \<open>None\<close> when it is not iterable.
\<close>

datatype argtype = text_type | int_type | bool_type

record 't runtime =
  str_other :: "'t pyval \<Rightarrow> string"
  int_non_ascii :: "string \<Rightarrow> int option"
  max_str_digits :: nat
  float_trunc :: "'t \<Rightarrow> int option"
  float_nonzero :: "'t \<Rightarrow> bool"
  exc_text :: "argtype \<Rightarrow> 't pyval \<Rightarrow> string"
  iter_other :: "'t pyval \<Rightarrow> 't pyval list option"

text \<open>\<^verbatim>\<open>str(v)\<close>\<close>

fun py_str :: "'t runtime \<Rightarrow> 't pyval \<Rightarrow> string" where
  "py_str py (PStr s) = s"
| "py_str py v = str_other py v"

text \<open>\<^verbatim>\<open>bool(v)\<close>: the truth value of \<open>v\<close>.\<close>

fun py_bool :: "'t runtime \<Rightarrow> 't pyval \<Rightarrow> bool" where
  "py_bool py PNone = False"
| "py_bool py (PBool b) = b"
| "py_bool py (PInt i) = (i \<noteq> 0)"
| "py_bool py (PFloat x) = float_nonzero py x"
| "py_bool py (PStr s) = (s \<noteq> [])"
| "py_bool py (PList xs) = (xs \<noteq> [])"
| "py_bool py (PDict kvs) = (kvs \<noteq> [])"

subsection \<open>\<^verbatim>\<open>int(s)\<close> of an ASCII string, base ten\<close>

definition is_ascii :: "string \<Rightarrow> bool" where
  "is_ascii s = list_all (\<lambda>c. (of_char c :: nat) < 128) s"

text \<open>The blanks \<^verbatim>\<open>int\<close> skips at both ends of an ASCII string: tab to carriage return, and space.\<close>

definition is_space :: "char \<Rightarrow> bool" where
  "is_space c = (let n = (of_char c :: nat) in (9 \<le> n \<and> n \<le> 13) \<or> n = 32)"

definition is_digit :: "char \<Rightarrow> bool" where
  "is_digit c = (let n = (of_char c :: nat) in 48 \<le> n \<and> n \<le> 57)"

definition digit_val :: "char \<Rightarrow> nat" where
  "digit_val c = of_char c - 48"

definition py_strip :: "string \<Rightarrow> string" where
  "py_strip s = rev (dropWhile is_space (rev (dropWhile is_space s)))"

text \<open>Digits with single underscores between them; \<open>acc\<close> is the value read so far, ending in a digit.\<close>

fun int_digits :: "nat \<Rightarrow> string \<Rightarrow> nat option" where
  "int_digits acc [] = Some acc"
| "int_digits acc [c] = (if is_digit c then Some (10 * acc + digit_val c) else None)"
| "int_digits acc (c # d # r) =
     (if is_digit c then int_digits (10 * acc + digit_val c) (d # r)
      else if c = CHR ''_'' \<and> is_digit d then int_digits acc (d # r)
      else None)"

definition int_unsigned :: "string \<Rightarrow> nat option" where
  "int_unsigned s =
     (case s of [] \<Rightarrow> None
      | c # r \<Rightarrow> if is_digit c then int_digits (digit_val c) r else None)"

text \<open>
  Blanks, an optional sign, the digits, blanks. More than 640 digits are checked against
  the limit \<open>maxd\<close> when there is one.
\<close>

definition int_ascii :: "nat \<Rightarrow> string \<Rightarrow> int option" where
  "int_ascii maxd s =
     (case py_strip s of [] \<Rightarrow> None
      | c # r \<Rightarrow>
          (let digits = length (filter is_digit (c # r))
           in if 640 < digits \<and> 0 < maxd \<and> maxd < digits then None
              else if c = CHR ''-'' then map_option (\<lambda>n. - int n) (int_unsigned r)
              else if c = CHR ''+'' then map_option int (int_unsigned r)
              else map_option int (int_unsigned (c # r))))"

text \<open>\<^verbatim>\<open>int(v)\<close>, \<open>None\<close> when it raises: \<^verbatim>\<open>None\<close>, lists and dictionaries are a \<^verbatim>\<open>TypeError\<close>.\<close>

fun py_int :: "'t runtime \<Rightarrow> 't pyval \<Rightarrow> int option" where
  "py_int py (PInt i) = Some i"
| "py_int py (PBool b) = Some (if b then 1 else 0)"
| "py_int py (PFloat x) = float_trunc py x"
| "py_int py (PStr s) = (if is_ascii s then int_ascii (max_str_digits py) s else int_non_ascii py s)"
| "py_int py v = None"

text \<open>
  A runtime to evaluate examples on. The examples use none of its parts: their values are
  strings, integers, booleans and \<^verbatim>\<open>None\<close>, and their strings are ASCII and short.
\<close>

definition sample_runtime :: "'t runtime" where
  "sample_runtime =
     \<lparr>str_other = (\<lambda>v. []), int_non_ascii = (\<lambda>s. None), max_str_digits = 4300,
      float_trunc = (\<lambda>x. None), float_nonzero = (\<lambda>x. True), exc_text = (\<lambda>ty v. []),
      iter_other = (\<lambda>v. None)\<rparr>"

section \<open>The request parser (\<^verbatim>\<open>flask_restful.reqparse\<close>)\<close>

text \<open>
  What the parser reads of a request: the dictionary of its JSON body when it has one (a
  JSON object), the parameters of its query string and the fields of its form, each in
  order. A key may occur several times in the query string and in the form.
\<close>

record 't request =
  req_json :: "(string \<times> 't pyval) list option"
  req_args :: "(string \<times> string) list"
  req_form :: "(string \<times> string) list"

text \<open>An entry of the JSON dictionary, as \<^verbatim>\<open>MultiDict.update\<close> adds it: a list gives one value per element.\<close>

fun multi_items :: "string \<times> 't pyval \<Rightarrow> (string \<times> 't pyval) list" where
  "multi_items (k, PList vs) = map (Pair k) vs"
| "multi_items (k, v) = [(k, v)]"

text \<open>
  \<^verbatim>\<open>Argument.source\<close> for the default locations \<^verbatim>\<open>('json', 'values')\<close>: one multi-dictionary,
  updated with the JSON body first and then with the query string followed by the form.
\<close>

definition source :: "'t request \<Rightarrow> (string \<times> 't pyval) list" where
  "source req =
     (case req_json req of None \<Rightarrow> [] | Some d \<Rightarrow> concat (map multi_items d)) @
     map (\<lambda>p. (fst p, PStr (snd p))) (req_args req) @
     map (\<lambda>p. (fst p, PStr (snd p))) (req_form req)"

definition getlist :: "string \<Rightarrow> (string \<times> 'v) list \<Rightarrow> 'v list" where
  "getlist k items = map snd (filter (\<lambda>p. fst p = k) items)"

text \<open>The keys of a multi-dictionary, each once, in the order of their first occurrence.\<close>

fun keys :: "(string \<times> 'v) list \<Rightarrow> string list" where
  "keys [] = []"
| "keys (p # ps) = fst p # removeAll (fst p) (keys ps)"

text \<open>\<^verbatim>\<open>sep.join(xs)\<close>\<close>

fun py_join :: "string \<Rightarrow> string list \<Rightarrow> string" where
  "py_join sep [] = []"
| "py_join sep [x] = x"
| "py_join sep (x # y # ys) = x @ sep @ py_join sep (y # ys)"

subsection \<open>Arguments\<close>

datatype action = Store | Append

text \<open>An argument; its \<^verbatim>\<open>type\<close> is reqparse's default \<^verbatim>\<open>text_type\<close> (that is \<^verbatim>\<open>str\<close>), \<^verbatim>\<open>int\<close> or \<^verbatim>\<open>bool\<close>.\<close>

record 't argument =
  arg_name :: string
  arg_required :: bool
  arg_action :: action
  arg_default :: "'t pyval"
  arg_type :: argtype
  arg_help :: string

text \<open>
  \<^verbatim>\<open>Argument.convert\<close>: \<^verbatim>\<open>None\<close> is not cast (arguments are nullable unless declared
  otherwise, and none here is); any other value goes through \<^verbatim>\<open>self.type(value)\<close>, whose
  exception is \<open>Inl\<close> its text.
\<close>

definition convert :: "'t runtime \<Rightarrow> argtype \<Rightarrow> 't pyval \<Rightarrow> string + 't pyval" where
  "convert py ty v =
     (if v = PNone then Inr PNone
      else case ty of
        text_type \<Rightarrow> Inr (PStr (py_str py v))
      | int_type \<Rightarrow>
          (case py_int py v of None \<Rightarrow> Inl (exc_text py ty v) | Some i \<Rightarrow> Inr (PInt i))
      | bool_type \<Rightarrow> Inr (PBool (py_bool py v)))"

text \<open>The loop over the supplied values: the first value that does not convert ends it.\<close>

fun convert_values :: "'t runtime \<Rightarrow> argtype \<Rightarrow> 't pyval list \<Rightarrow> string + 't pyval list" where
  "convert_values py ty [] = Inr []"
| "convert_values py ty (v # vs) =
     (case convert py ty v of
        Inl err \<Rightarrow> Inl err
      | Inr x \<Rightarrow> (case convert_values py ty vs of Inl err \<Rightarrow> Inl err | Inr xs \<Rightarrow> Inr (x # xs)))"

text \<open>
  \<^verbatim>\<open>Argument.handle_validation_error\<close> without error bundling: abort with status 400 and
  the message \<^verbatim>\<open>{name: help}\<close>, the error's own text when there is no help.
\<close>

definition handle_validation_error :: "'t argument \<Rightarrow> string \<Rightarrow> 't exn" where
  "handle_validation_error a err =
     abort 400 (JObj [(arg_name a, JStr (if arg_help a \<noteq> [] then arg_help a else err))])"

definition missing_msg :: string where
  "missing_msg = ''Missing required parameter in the JSON body or the post body or the query string''"

text \<open>
  \<^verbatim>\<open>Argument.parse\<close>: the value, whether it was found, and the names not yet parsed
  (a parsed name is popped from them).
\<close>

definition Argument_parse ::
  "'t runtime \<Rightarrow> 't argument \<Rightarrow> 't request \<Rightarrow> string list \<Rightarrow>
   't exn + ('t pyval \<times> bool \<times> string list)" where
  "Argument_parse py a req unparsed =
     (case convert_values py (arg_type a) (getlist (arg_name a) (source req)) of
        Inl err \<Rightarrow> Inl (handle_validation_error a err)
      | Inr results \<Rightarrow>
          (case results of
             [] \<Rightarrow>
               if arg_required a then Inl (handle_validation_error a missing_msg)
               else Inr (arg_default a, False, unparsed)
           | r # rs \<Rightarrow>
               if arg_action a = Append
               then Inr (PList results, True, removeAll (arg_name a) unparsed)
               else Inr (r, True, removeAll (arg_name a) unparsed)))"

type_synonym 't namespace = "string \<rightharpoonup> 't pyval"

text \<open>The loop of \<^verbatim>\<open>parse_args\<close> over the parser's arguments; a missing one is stored with its default.\<close>

fun parse_loop ::
  "'t runtime \<Rightarrow> 't argument list \<Rightarrow> 't request \<Rightarrow> string list \<Rightarrow> 't namespace \<Rightarrow>
   't exn + ('t namespace \<times> string list)" where
  "parse_loop py [] req unparsed ns = Inr (ns, unparsed)"
| "parse_loop py (a # as) req unparsed ns =
     (case Argument_parse py a req unparsed of
        Inl e \<Rightarrow> Inl e
      | Inr (v, found, unparsed') \<Rightarrow> parse_loop py as req unparsed' (ns(arg_name a \<mapsto> v)))"

text \<open>\<^verbatim>\<open>parser.parse_args(strict=True)\<close>: a parameter no argument parsed is a bad request.\<close>

definition parse_args :: "'t runtime \<Rightarrow> 't argument list \<Rightarrow> 't request \<Rightarrow> 't exn + 't namespace" where
  "parse_args py parser req =
     (case parse_loop py parser req (keys (source req)) Map.empty of
        Inl e \<Rightarrow> Inl e
      | Inr (ns, unparsed) \<Rightarrow>
          if unparsed \<noteq> []
          then Inl (abort 400 (JStr (''Unknown arguments: '' @ py_join '', '' unparsed)))
          else Inr ns)"

text \<open>\<^verbatim>\<open>args[key]\<close>\<close>

definition getitem :: "'t namespace \<Rightarrow> string \<Rightarrow> 't exn + 't pyval" where
  "getitem ns k = (case ns k of None \<Rightarrow> Inl (KeyError k) | Some v \<Rightarrow> Inr v)"

text \<open>\<^verbatim>\<open>*value\<close> in a call: the elements of the value.\<close>

fun unpack :: "'t runtime \<Rightarrow> 't pyval \<Rightarrow> 't exn + 't pyval list" where
  "unpack py (PList xs) = Inr xs"
| "unpack py v =
     (case iter_other py v of
        None \<Rightarrow> Inl (TypeError ''argument after * must be an iterable'')
      | Some xs \<Rightarrow> Inr xs)"

section \<open>The collaborator: \<^verbatim>\<open>Connection\<close>\<close>

text \<open>
  The class \<^verbatim>\<open>Connection\<close> is imported, not defined in \<^verbatim>\<open>api_builtins.py\<close>.
  The adapter consumes two of its methods, taken here as parameters: each receives the
  positional and the keyword arguments of the call and the state \<open>'c\<close> of the serial
  connection, and returns its result with the new state.
\<close>

type_synonym 't kwargs = "(string \<times> 't pyval) list"

record ('c, 't) connection =
  conn_send :: "'t pyval list \<Rightarrow> 't kwargs \<Rightarrow> 'c \<Rightarrow> bool \<times> 'c"
  conn_receive_str :: "'t pyval list \<Rightarrow> 't kwargs \<Rightarrow> 'c \<Rightarrow> ('t \<times> string) option \<times> 'c"

text \<open>
  Modelled from the spec: the defaults of the parameters of \<^verbatim>\<open>Connection.receive_str\<close>,
  whose declaration is missing from the sources. The spec gives the interface as
  \<^verbatim>\<open>receive_str(num_before, read_until, strip)\<close>, offset 0 meaning the most recent record and
  no terminator meaning the whole buffered string, and has the call without arguments
  return the most recent record stripped of whitespace.
\<close>

definition receive_str_defaults :: "'t kwargs" where
  "receive_str_defaults = [(''num_before'', PInt 0), (''read_until'', PNone), (''strip'', PBool True)]"

text \<open>The value a parameter is bound to by a call with keyword arguments \<open>kw\<close>.\<close>

definition bound :: "'t kwargs \<Rightarrow> 't kwargs \<Rightarrow> string \<Rightarrow> 't pyval option" where
  "bound defaults kw k = (case map_of kw k of Some v \<Rightarrow> Some v | None \<Rightarrow> map_of defaults k)"

text \<open>
  A connection that only records the calls made on it, in order: its state is the list of
  calls, \<open>ok\<close> is what every \<^verbatim>\<open>send\<close> answers and \<open>rcv\<close> what every \<^verbatim>\<open>receive_str\<close> answers.
\<close>

datatype 't call = Call string "'t pyval list" "'t kwargs"

definition recording :: "bool \<Rightarrow> ('t \<times> string) option \<Rightarrow> ('t call list, 't) connection" where
  "recording ok rcv =
     \<lparr>conn_send = (\<lambda>args kw log. (ok, log @ [Call ''send'' args kw])),
      conn_receive_str = (\<lambda>args kw log. (rcv, log @ [Call ''receive_str'' args kw]))\<rparr>"

text \<open>The positional arguments of a recorded call, and one of its keyword arguments.\<close>

fun call_args :: "'t call \<Rightarrow> 't pyval list" where
  "call_args (Call f args kw) = args"

fun call_kwarg :: "string \<Rightarrow> 't call \<Rightarrow> 't pyval option" where
  "call_kwarg k (Call f args kw) = map_of kw k"

section \<open>The resources\<close>

text \<open>A method of a resource: from the request and the connection's state to its outcome and the new state.\<close>

type_synonym ('c, 't) http_method = "'t request \<Rightarrow> 'c \<Rightarrow> ('t exn + 't json) \<times> 'c"

text \<open>A \<^verbatim>\<open>ConnectionResource\<close> subclass: the HTTP methods it defines.\<close>

record ('c, 't) ConnectionResource =
  get :: "('c, 't) http_method option"
  post :: "('c, 't) http_method option"

subsection \<open>\<^verbatim>\<open>/send\<close>\<close>

definition CRLF :: string where
  "CRLF = [CHR 0x0D, CHR 0x0A]"

definition Sending_parser :: "'t argument list" where
  "Sending_parser =
     [\<lparr>arg_name = ''data'', arg_required = True, arg_action = Append, arg_default = PNone,
        arg_type = text_type, arg_help = ''Data the serial port should send; is required''\<rparr>,
      \<lparr>arg_name = ''ending'', arg_required = False, arg_action = Store, arg_default = PStr CRLF,
        arg_type = text_type,
        arg_help = ''Ending that will be appended to the end of data before sending over serial port; default carriage return + newline''\<rparr>,
      \<lparr>arg_name = ''concatenate'', arg_required = False, arg_action = Store, arg_default = PStr '' '',
        arg_type = text_type,
        arg_help = ''What the strings in data should be concatenated by if list; by default a space''\<rparr>]"

definition Sending_post :: "'t runtime \<Rightarrow> ('c, 't) connection \<Rightarrow> ('c, 't) http_method" where
  "Sending_post py conn req c =
     (case parse_args py Sending_parser req of
        Inl e \<Rightarrow> (Inl e, c)
      | Inr args \<Rightarrow>
     (case getitem args ''data'' of
        Inl e \<Rightarrow> (Inl e, c)
      | Inr d \<Rightarrow>
     (case unpack py d of
        Inl e \<Rightarrow> (Inl e, c)
      | Inr frags \<Rightarrow>
     (case getitem args ''ending'' of
        Inl e \<Rightarrow> (Inl e, c)
      | Inr en \<Rightarrow>
     (case getitem args ''concatenate'' of
        Inl e \<Rightarrow> (Inl e, c)
      | Inr co \<Rightarrow>
     (case conn_send conn frags [(''ending'', en), (''concatenate'', co)] c of
        (res, c') \<Rightarrow>
          if \<not> res then (Inl (abort 502 (JStr ''Failed to send'')), c')
          else (Inr (JObj [(''message'', JStr ''OK'')]), c')))))))"

definition send :: "'t runtime \<Rightarrow> ('c, 't) connection \<Rightarrow> ('c, 't) ConnectionResource" where
  "send py conn = \<lparr>get = None, post = Some (Sending_post py conn)\<rparr>"

subsection \<open>\<^verbatim>\<open>/receive\<close>\<close>

definition Receiving_parser :: "'t argument list" where
  "Receiving_parser =
     [\<lparr>arg_name = ''num_before'', arg_required = False, arg_action = Store, arg_default = PInt 0,
        arg_type = int_type, arg_help = ''Which receive data to return''\<rparr>,
      \<lparr>arg_name = ''read_until'', arg_required = False, arg_action = Store, arg_default = PNone,
        arg_type = text_type, arg_help = ''What character the string should read until''\<rparr>,
      \<lparr>arg_name = ''strip'', arg_required = False, arg_action = Store, arg_default = PBool False,
        arg_type = bool_type,
        arg_help = ''If the string should be stripped of whitespaces and newlines before responding''\<rparr>]"

text \<open>The dictionary both methods return: \<^verbatim>\<open>res[0]\<close> and \<^verbatim>\<open>res[1]\<close> of a tuple, \<^verbatim>\<open>None\<close> twice otherwise.\<close>

definition receive_body :: "('t \<times> string) option \<Rightarrow> 't json" where
  "receive_body res =
     JObj [(''message'', JStr ''OK''),
           (''timestamp'', case res of Some (ts, s) \<Rightarrow> JNum ts | None \<Rightarrow> JNull),
           (''data'', case res of Some (ts, s) \<Rightarrow> JStr s | None \<Rightarrow> JNull)]"

definition Receiving_get :: "('c, 't) connection \<Rightarrow> ('c, 't) http_method" where
  "Receiving_get conn req c =
     (case conn_receive_str conn [] [] c of (res, c') \<Rightarrow> (Inr (receive_body res), c'))"

definition Receiving_post :: "'t runtime \<Rightarrow> ('c, 't) connection \<Rightarrow> ('c, 't) http_method" where
  "Receiving_post py conn req c =
     (case parse_args py Receiving_parser req of
        Inl e \<Rightarrow> (Inl e, c)
      | Inr args \<Rightarrow>
     (case getitem args ''num_before'' of
        Inl e \<Rightarrow> (Inl e, c)
      | Inr nb \<Rightarrow>
     (case getitem args ''read_until'' of
        Inl e \<Rightarrow> (Inl e, c)
      | Inr ru \<Rightarrow>
     (case getitem args ''strip'' of
        Inl e \<Rightarrow> (Inl e, c)
      | Inr st \<Rightarrow>
     (case conn_receive_str conn [] [(''num_before'', nb), (''read_until'', ru), (''strip'', st)] c of
        (res, c') \<Rightarrow> (Inr (receive_body res), c'))))))"

definition receive :: "'t runtime \<Rightarrow> ('c, 't) connection \<Rightarrow> ('c, 't) ConnectionResource" where
  "receive py conn = \<lparr>get = Some (Receiving_get conn), post = Some (Receiving_post py conn)\<rparr>"

section \<open>The registry: \<^verbatim>\<open>Builtins\<close>\<close>

text \<open>What \<^verbatim>\<open>handler.conn\<close> may hold: an instance of \<^verbatim>\<open>Connection\<close>, or an object of another class.\<close>

datatype ('c, 't) pyobj = Connection_instance "('c, 't) connection" | Other_instance string

record ('c, 't) RestApiHandler =
  conn :: "('c, 't) pyobj"
  all_endpoints :: "(string \<times> (('c, 't) connection \<Rightarrow> ('c, 't) ConnectionResource)) list"

text \<open>
  Modelled from the spec: \<^verbatim>\<open>RestApiHandler.add_endpoint\<close>, whose class is missing from the
  sources. The spec has registration attach each (path, resource-constructor) pair to the
  underlying web handler.
\<close>

definition add_endpoint ::
  "string \<Rightarrow> (('c, 't) connection \<Rightarrow> ('c, 't) ConnectionResource) \<Rightarrow>
   ('c, 't) RestApiHandler \<Rightarrow> ('c, 't) RestApiHandler" where
  "add_endpoint endpoint func h = h\<lparr>all_endpoints := all_endpoints h @ [(endpoint, func)]\<rparr>"

definition add_all :: "'t runtime \<Rightarrow> ('c, 't) RestApiHandler \<Rightarrow> ('c, 't) RestApiHandler" where
  "add_all py h = add_endpoint ''/receive'' (receive py) (add_endpoint ''/send'' (send py) h)"

text \<open>
  \<^verbatim>\<open>Builtins.__init__\<close>: the outcome and the handler as the constructor leaves it. The
  object built holds the handler it was given.
\<close>

definition Builtins_init ::
  "'t runtime \<Rightarrow> ('c, 't) RestApiHandler \<Rightarrow>
   ('t exn + ('c, 't) RestApiHandler) \<times> ('c, 't) RestApiHandler" where
  "Builtins_init py h =
     (case conn h of
        Other_instance cls \<Rightarrow>
          (Inl (TypeError ''The connection object passed into the handler must be a Connection type''), h)
      | Connection_instance c \<Rightarrow> (let h' = add_all py h in (Inr h', h')))"

text \<open>The endpoints the module's documentation lists.\<close>

definition documented_endpoints :: "string list" where
  "documented_endpoints =
     [''/send'', ''/receive'', ''/receive/all'', ''/get'', ''/send/get_first'', ''/get/wait'',
      ''/send/get'', ''/list_ports'']"

section \<open>What the parser returns\<close>

text \<open>
  What \<^verbatim>\<open>Argument.convert\<close> returns for a supplied value of a \<^verbatim>\<open>str\<close> argument and of a
  \<^verbatim>\<open>bool\<close> argument: neither conversion raises.
\<close>

definition as_text :: "'t runtime \<Rightarrow> 't pyval \<Rightarrow> 't pyval" where
  "as_text py v = (if v = PNone then PNone else PStr (py_str py v))"

definition as_bool :: "'t runtime \<Rightarrow> 't pyval \<Rightarrow> 't pyval" where
  "as_bool py v = (if v = PNone then PNone else PBool (py_bool py v))"

text \<open>Whether a Python value is an \<^verbatim>\<open>int\<close> (and not a \<^verbatim>\<open>bool\<close>).\<close>

fun is_PInt :: "'t pyval \<Rightarrow> bool" where
  "is_PInt (PInt i) = True"
| "is_PInt v = False"

text \<open>The decimal numeral of a natural number.\<close>

fun decimal :: "nat \<Rightarrow> string" where
  "decimal n =
     (if n < 10 then [char_of (48 + n)] else decimal (n div 10) @ [char_of (48 + n mod 10)])"

declare decimal.simps [simp del]

text \<open>A request with a form only, and one with a JSON body only.\<close>

definition form_request :: "(string \<times> string) list \<Rightarrow> 't request" where
  "form_request fs = \<lparr>req_json = None, req_args = [], req_form = fs\<rparr>"

definition json_request :: "(string \<times> 't pyval) list \<Rightarrow> 't request" where
  "json_request d = \<lparr>req_json = Some d, req_args = [], req_form = []\<rparr>"

section \<open>What the parsers accept\<close>

lemma getlist_Nil_iff: "getlist k items = [] \<longleftrightarrow> k \<notin> fst ` set items"
  by (induction items) (auto simp: getlist_def)

lemma convert_text: "convert py text_type v = Inr (as_text py v)"
  by (simp add: convert_def as_text_def)

lemma convert_bool: "convert py bool_type v = Inr (as_bool py v)"
  by (simp add: convert_def as_bool_def)

lemma convert_values_text: "convert_values py text_type vs = Inr (map (as_text py) vs)"
  by (induction vs) (simp_all add: convert_text)

lemma convert_values_bool: "convert_values py bool_type vs = Inr (map (as_bool py) vs)"
  by (induction vs) (simp_all add: convert_bool)

lemma convert_int:
  "convert py int_type v = Inr x \<longleftrightarrow>
     (v = PNone \<and> x = PNone) \<or> (v \<noteq> PNone \<and> (\<exists>i. py_int py v = Some i \<and> x = PInt i))"
  by (auto simp: convert_def split: option.splits)

lemma convert_values_int_Cons:
  "convert_values py int_type (v # vs) = Inr xs \<Longrightarrow>
     \<exists>x ys. xs = x # ys \<and> convert py int_type v = Inr x"
  by (auto split: sum.splits)

lemma as_bool_PStr: "as_bool py (PStr s) = PBool (s \<noteq> [])"
  by (simp add: as_bool_def)

lemma as_text_PStr: "as_text py (PStr s) = PStr s"
  by (simp add: as_text_def)

lemma Sending_parse_loop:
  "parse_loop py Sending_parser req un ns =
     (if getlist ''data'' (source req) = []
      then Inl (abort 400 (JObj [(''data'', JStr ''Data the serial port should send; is required'')]))
      else Inr (ns(''data'' \<mapsto> PList (map (as_text py) (getlist ''data'' (source req))),
                   ''ending'' \<mapsto>
                     (case getlist ''ending'' (source req) of [] \<Rightarrow> PStr CRLF | v # vs \<Rightarrow> as_text py v),
                   ''concatenate'' \<mapsto>
                     (case getlist ''concatenate'' (source req) of [] \<Rightarrow> PStr '' '' | v # vs \<Rightarrow> as_text py v)),
                (if getlist ''concatenate'' (source req) = [] then id else removeAll ''concatenate'')
                  ((if getlist ''ending'' (source req) = [] then id else removeAll ''ending'')
                    (removeAll ''data'' un))))"
  by (cases "getlist ''data'' (source req)"; cases "getlist ''ending'' (source req)";
      cases "getlist ''concatenate'' (source req)")
     (simp_all add: Sending_parser_def Argument_parse_def convert_values_text convert_text
        handle_validation_error_def)

lemma Sending_parse_args_valid:
  assumes "parse_args py Sending_parser req = Inr ns"
  shows "getlist ''data'' (source req) \<noteq> []"
    and "ns ''data'' = Some (PList (map (as_text py) (getlist ''data'' (source req))))"
    and "ns ''ending'' =
           Some (case getlist ''ending'' (source req) of [] \<Rightarrow> PStr CRLF | v # vs \<Rightarrow> as_text py v)"
    and "ns ''concatenate'' =
           Some (case getlist ''concatenate'' (source req) of [] \<Rightarrow> PStr '' '' | v # vs \<Rightarrow> as_text py v)"
  using assms
  by (auto simp: parse_args_def Sending_parse_loop split: if_splits)

lemma Sending_post_valid:
  assumes "parse_args py Sending_parser req = Inr ns"
  shows "Sending_post py cn req c =
     (case conn_send cn (map (as_text py) (getlist ''data'' (source req)))
             [(''ending'',
               case getlist ''ending'' (source req) of [] \<Rightarrow> PStr CRLF | v # vs \<Rightarrow> as_text py v),
              (''concatenate'',
               case getlist ''concatenate'' (source req) of [] \<Rightarrow> PStr '' '' | v # vs \<Rightarrow> as_text py v)] c of
        (res, c') \<Rightarrow>
          if \<not> res then (Inl (abort 502 (JStr ''Failed to send'')), c')
          else (Inr (JObj [(''message'', JStr ''OK'')]), c'))"
  unfolding Sending_post_def
  by (simp add: assms Sending_parse_args_valid[OF assms] getitem_def)

lemma Sending_post_missing_data:
  assumes "getlist ''data'' (source req) = []"
  shows "Sending_post py cn req c =
     (Inl (abort 400 (JObj [(''data'', JStr ''Data the serial port should send; is required'')])), c)"
  by (simp add: Sending_post_def parse_args_def Sending_parse_loop assms)

lemma Receiving_parse_loop:
  "parse_loop py Receiving_parser req un ns =
     (case convert_values py int_type (getlist ''num_before'' (source req)) of
        Inl err \<Rightarrow> Inl (abort 400 (JObj [(''num_before'', JStr ''Which receive data to return'')]))
      | Inr xs \<Rightarrow>
         Inr (ns(''num_before'' \<mapsto> (case xs of [] \<Rightarrow> PInt 0 | x # ys \<Rightarrow> x),
                 ''read_until'' \<mapsto>
                   (case getlist ''read_until'' (source req) of [] \<Rightarrow> PNone | v # vs \<Rightarrow> as_text py v),
                 ''strip'' \<mapsto>
                   (case getlist ''strip'' (source req) of [] \<Rightarrow> PBool False | v # vs \<Rightarrow> as_bool py v)),
              (if getlist ''strip'' (source req) = [] then id else removeAll ''strip'')
                ((if getlist ''read_until'' (source req) = [] then id else removeAll ''read_until'')
                  ((if xs = [] then id else removeAll ''num_before'') un))))"
  by (cases "getlist ''read_until'' (source req)"; cases "getlist ''strip'' (source req)";
      cases "convert_values py int_type (getlist ''num_before'' (source req))")
     (simp_all add: Receiving_parser_def Argument_parse_def convert_values_text convert_values_bool
        convert_text convert_bool handle_validation_error_def split: list.splits)

text \<open>The value \<^verbatim>\<open>num_before\<close> is parsed to: the default, \<^verbatim>\<open>None\<close> kept, or the integer \<^verbatim>\<open>int\<close> gives.\<close>

lemma Receiving_parse_args_valid:
  assumes "parse_args py Receiving_parser req = Inr ns"
  shows "\<exists>nb. ns ''num_before'' = Some nb \<and>
              (case getlist ''num_before'' (source req) of
                 [] \<Rightarrow> nb = PInt 0
               | v # vs \<Rightarrow> if v = PNone then nb = PNone
                           else \<exists>n. py_int py v = Some n \<and> nb = PInt n)"
    and "ns ''read_until'' =
           Some (case getlist ''read_until'' (source req) of [] \<Rightarrow> PNone | v # vs \<Rightarrow> as_text py v)"
    and "ns ''strip'' =
           Some (case getlist ''strip'' (source req) of [] \<Rightarrow> PBool False | v # vs \<Rightarrow> as_bool py v)"
proof -
  from assms obtain xs where
    cv: "convert_values py int_type (getlist ''num_before'' (source req)) = Inr xs" and
    ns: "ns = Map.empty(''num_before'' \<mapsto> (case xs of [] \<Rightarrow> PInt 0 | x # ys \<Rightarrow> x),
                 ''read_until'' \<mapsto>
                   (case getlist ''read_until'' (source req) of [] \<Rightarrow> PNone | v # vs \<Rightarrow> as_text py v),
                 ''strip'' \<mapsto>
                   (case getlist ''strip'' (source req) of [] \<Rightarrow> PBool False | v # vs \<Rightarrow> as_bool py v))"
    by (auto simp: parse_args_def Receiving_parse_loop split: sum.splits if_splits)
  show "\<exists>nb. ns ''num_before'' = Some nb \<and>
              (case getlist ''num_before'' (source req) of
                 [] \<Rightarrow> nb = PInt 0
               | v # vs \<Rightarrow> if v = PNone then nb = PNone
                           else \<exists>n. py_int py v = Some n \<and> nb = PInt n)"
  proof (cases "getlist ''num_before'' (source req)")
    case Nil
    with cv have "xs = []" by simp
    with Nil ns show ?thesis by simp
  next
    case (Cons v vs)
    with cv convert_values_int_Cons obtain x ys where
      xs: "xs = x # ys" and x: "convert py int_type v = Inr x"
      by metis
    from x have "if v = PNone then x = PNone else \<exists>n. py_int py v = Some n \<and> x = PInt n"
      by (auto simp: convert_int)
    with Cons ns xs show ?thesis by simp
  qed
  from ns show "ns ''read_until'' =
      Some (case getlist ''read_until'' (source req) of [] \<Rightarrow> PNone | v # vs \<Rightarrow> as_text py v)"
    by simp
  from ns show "ns ''strip'' =
      Some (case getlist ''strip'' (source req) of [] \<Rightarrow> PBool False | v # vs \<Rightarrow> as_bool py v)"
    by simp
qed

lemma Receiving_post_args:
  assumes "parse_args py Receiving_parser req = Inr ns"
    and "ns ''num_before'' = Some nb" and "ns ''read_until'' = Some ru" and "ns ''strip'' = Some st"
  shows "Receiving_post py cn req c =
     (case conn_receive_str cn [] [(''num_before'', nb), (''read_until'', ru), (''strip'', st)] c of
        (res, c') \<Rightarrow> (Inr (receive_body res), c'))"
  unfolding Receiving_post_def by (simp add: assms getitem_def)

subsection \<open>\<^verbatim>\<open>int\<close> reads decimal numerals\<close>

lemma of_char_digit: "(d :: nat) < 10 \<Longrightarrow> (of_char (char_of (48 + d)) :: nat) = 48 + d"
  by simp

lemma is_digit_char_of: "(d :: nat) < 10 \<Longrightarrow> is_digit (char_of (48 + d))"
  by (simp add: is_digit_def)

lemma digit_val_char_of: "(d :: nat) < 10 \<Longrightarrow> digit_val (char_of (48 + d)) = d"
  by (simp add: digit_val_def)

lemma not_space_digit: "is_digit c \<Longrightarrow> \<not> is_space c"
  by (auto simp: is_digit_def is_space_def Let_def)

lemma not_sign_digit: "is_digit c \<Longrightarrow> c \<noteq> CHR ''-'' \<and> c \<noteq> CHR ''+'' \<and> c \<noteq> CHR ''_''"
  by (auto simp: is_digit_def)

lemma ascii_digit: "is_digit c \<Longrightarrow> (of_char c :: nat) < 128"
  by (auto simp: is_digit_def Let_def)

lemma int_digits_snoc:
  "list_all is_digit ds \<Longrightarrow> is_digit c \<Longrightarrow>
   int_digits acc (ds @ [c]) = map_option (\<lambda>m. 10 * m + digit_val c) (int_digits acc ds)"
proof (induction acc ds rule: int_digits.induct)
  case (1 acc)
  then show ?case by simp
next
  case (2 acc d)
  then show ?case by simp
next
  case (3 acc d e r)
  then show ?case by simp
qed

lemma decimal_digits: "list_all is_digit (decimal n) \<and> decimal n \<noteq> []"
proof (induction n rule: decimal.induct)
  case (1 n)
  show ?case
  proof (cases "n < 10")
    case True
    then show ?thesis by (subst (1 2) decimal.simps) (simp add: is_digit_char_of)
  next
    case False
    with 1 show ?thesis
      by (subst (1 2) decimal.simps) (simp add: is_digit_char_of)
  qed
qed

lemma int_unsigned_snoc:
  "list_all is_digit ds \<Longrightarrow> ds \<noteq> [] \<Longrightarrow> is_digit c \<Longrightarrow>
   int_unsigned (ds @ [c]) = map_option (\<lambda>m. 10 * m + digit_val c) (int_unsigned ds)"
  by (cases ds) (simp_all add: int_unsigned_def int_digits_snoc)

lemma int_unsigned_decimal: "int_unsigned (decimal n) = Some n"
proof (induction n rule: decimal.induct)
  case (1 n)
  show ?case
  proof (cases "n < 10")
    case True
    then show ?thesis
      by (subst decimal.simps) (simp add: int_unsigned_def is_digit_char_of digit_val_char_of)
  next
    case False
    then have "decimal n = decimal (n div 10) @ [char_of (48 + n mod 10)]"
      by (subst decimal.simps) simp
    with False 1 decimal_digits[of "n div 10"] show ?thesis
      by (simp add: int_unsigned_snoc is_digit_char_of digit_val_char_of)
  qed
qed

lemma py_strip_digits: "list_all is_digit ds \<Longrightarrow> py_strip ds = ds"
proof (cases ds rule: rev_cases)
  case Nil
  then show ?thesis by (simp add: py_strip_def)
next
  case (snoc ys y)
  assume d: "list_all is_digit ds"
  show ?thesis
  proof (cases ds)
    case Nil
    then show ?thesis by (simp add: py_strip_def)
  next
    case (Cons x xs)
    with d have "\<not> is_space x" by (simp add: not_space_digit)
    with Cons have 1: "dropWhile is_space ds = ds" by simp
    from d snoc have "\<not> is_space y" by (simp add: not_space_digit)
    with snoc have 2: "dropWhile is_space (rev ds) = rev ds" by simp
    from 1 2 show ?thesis by (simp add: py_strip_def)
  qed
qed

lemma py_int_decimal:
  assumes "length (decimal n) \<le> 640"
  shows "py_int py (PStr (decimal n)) = Some (int n)"
proof -
  from decimal_digits[of n] obtain c r where cr: "decimal n = c # r" and
    dig: "list_all is_digit (c # r)"
    by (cases "decimal n") auto
  from dig have asc: "is_ascii (decimal n)"
    by (auto simp: cr is_ascii_def list_all_iff ascii_digit)
  from dig have strip: "py_strip (decimal n) = c # r"
    using py_strip_digits[of "c # r"] by (simp add: cr)
  from dig have sign: "c \<noteq> CHR ''-''" "c \<noteq> CHR ''+''"
    using not_sign_digit[of c] by simp_all
  from dig have "filter is_digit (c # r) = c # r"
    by (simp add: list_all_iff filter_id_conv)
  with assms cr have len: "\<not> 640 < length (filter is_digit (c # r))"
    by simp
  from int_unsigned_decimal[of n] cr have "int_unsigned (c # r) = Some n"
    by simp
  with asc strip sign len show ?thesis
    by (simp add: int_ascii_def Let_def del: filter.simps)
qed

section \<open>\<^verbatim>\<open>POST /send\<close>\<close>

text \<open>
  C1. A \<^verbatim>\<open>POST /send\<close> request that passes validation makes one call of the connection's
  \<^verbatim>\<open>send\<close>: the state left is the one after that call, with no second attempt. When the
  call answers false the response is 502 with body \<^verbatim>\<open>{"message": "Failed to send"}\<close>; when it
  answers true the response is 200 with body \<^verbatim>\<open>{"message": "OK"}\<close>.
\<close>

theorem Sending_post_outcome:
  fixes conn :: "('c, 't) connection"
  assumes "parse_args py Sending_parser req = Inr ns"
  shows "(let r = conn_send conn (map (as_text py) (getlist ''data'' (source req)))
                   [(''ending'',
                     case getlist ''ending'' (source req) of [] \<Rightarrow> PStr CRLF | v # vs \<Rightarrow> as_text py v),
                    (''concatenate'',
                     case getlist ''concatenate'' (source req) of [] \<Rightarrow> PStr '' '' | v # vs \<Rightarrow> as_text py v)] c
          in snd (Sending_post py conn req c) = snd r \<and>
             respond (fst (Sending_post py conn req c)) =
               (if fst r then \<lparr>status = 200, body = JObj [(''message'', JStr ''OK'')]\<rparr>
                else \<lparr>status = 502, body = JObj [(''message'', JStr ''Failed to send'')]\<rparr>))"
  by (simp add: Sending_post_valid[OF assms] Let_def abort_def split: prod.splits)

text \<open>A request with one fragment, on a connection that refuses and on one that accepts.\<close>

theorem Sending_post_outcome_witness:
  "parse_args (sample_runtime :: int runtime) Sending_parser (form_request [(''data'', ''AT'')]) =
     Inr [''data'' \<mapsto> PList [PStr ''AT''], ''ending'' \<mapsto> PStr CRLF, ''concatenate'' \<mapsto> PStr '' ''] \<and>
   respond (fst (Sending_post (sample_runtime :: int runtime) (recording False None)
                   (form_request [(''data'', ''AT'')]) [])) =
     \<lparr>status = 502, body = JObj [(''message'', JStr ''Failed to send'')]\<rparr> \<and>
   respond (fst (Sending_post (sample_runtime :: int runtime) (recording True None)
                   (form_request [(''data'', ''AT'')]) [])) =
     \<lparr>status = 200, body = JObj [(''message'', JStr ''OK'')]\<rparr> \<and>
   length (snd (Sending_post (sample_runtime :: int runtime) (recording False None)
                  (form_request [(''data'', ''AT'')]) [])) = 1"
proof -
  have v: "parse_args (sample_runtime :: int runtime) Sending_parser (form_request [(''data'', ''AT'')]) =
     Inr [''data'' \<mapsto> PList [PStr ''AT''], ''ending'' \<mapsto> PStr CRLF, ''concatenate'' \<mapsto> PStr '' '']"
    by (simp add: parse_args_def Sending_parse_loop getlist_def source_def form_request_def as_text_def)
  show ?thesis
    using v Sending_post_outcome[OF v, of "recording False None" "[]"]
      Sending_post_outcome[OF v, of "recording True None" "[]"]
    by (simp add: recording_def getlist_def source_def form_request_def as_text_def Let_def)
qed

text \<open>
  C2, as the code has it. A valid \<^verbatim>\<open>POST /send\<close> request has at least one fragment, and
  the handler makes one call \<^verbatim>\<open>send(*fragments, ending=..., concatenate=...)\<close> with what the
  parser returned: the parsed fragments are the positional arguments, one for each value
  supplied and in the order the parser reads them, and the parsed ending (default CR LF)
  and separator (default one space) are keyword arguments. Nothing is joined or suffixed
  here; that is left to the connection.
\<close>

theorem Sending_post_forwards_fragments:
  assumes "parse_args py Sending_parser req = Inr ns"
  shows "\<exists>frags en co.
           ns ''data'' = Some (PList frags) \<and> ns ''ending'' = Some en \<and> ns ''concatenate'' = Some co \<and>
           frags = map (as_text py) (getlist ''data'' (source req)) \<and> frags \<noteq> [] \<and>
           en = (case getlist ''ending'' (source req) of [] \<Rightarrow> PStr CRLF | v # vs \<Rightarrow> as_text py v) \<and>
           co = (case getlist ''concatenate'' (source req) of [] \<Rightarrow> PStr '' '' | v # vs \<Rightarrow> as_text py v) \<and>
           snd (Sending_post py (recording ok rcv) req log) =
             log @ [Call ''send'' frags [(''ending'', en), (''concatenate'', co)]]"
  by (simp add: Sending_post_valid[OF assms] Sending_parse_args_valid[OF assms] recording_def)

text \<open>
  Fragments from a JSON list, one of them null, and from the form, around a separator:
  the JSON values come first, the null is passed on as \<^verbatim>\<open>None\<close>.
\<close>

theorem Sending_post_forwards_fragments_witness:
  "parse_args (sample_runtime :: int runtime) Sending_parser
     \<lparr>req_json = Some [(''data'', PList [PStr ''a'', PNone])], req_args = [],
      req_form = [(''data'', ''b''), (''concatenate'', ''-'')]\<rparr> =
     Inr [''data'' \<mapsto> PList [PStr ''a'', PNone, PStr ''b''], ''ending'' \<mapsto> PStr CRLF,
          ''concatenate'' \<mapsto> PStr ''-''] \<and>
   snd (Sending_post (sample_runtime :: int runtime) (recording True None)
          \<lparr>req_json = Some [(''data'', PList [PStr ''a'', PNone])], req_args = [],
           req_form = [(''data'', ''b''), (''concatenate'', ''-'')]\<rparr> []) =
     [Call ''send'' [PStr ''a'', PNone, PStr ''b'']
        [(''ending'', PStr CRLF), (''concatenate'', PStr ''-'')]]"
proof -
  have v: "parse_args (sample_runtime :: int runtime) Sending_parser
     \<lparr>req_json = Some [(''data'', PList [PStr ''a'', PNone])], req_args = [],
      req_form = [(''data'', ''b''), (''concatenate'', ''-'')]\<rparr> =
     Inr [''data'' \<mapsto> PList [PStr ''a'', PNone, PStr ''b''], ''ending'' \<mapsto> PStr CRLF,
          ''concatenate'' \<mapsto> PStr ''-'']"
    by (simp add: parse_args_def Sending_parse_loop getlist_def source_def as_text_def)
  show ?thesis
    using v Sending_post_forwards_fragments[OF v, of True None "[]"]
    by (simp add: getlist_def source_def as_text_def)
qed

text \<open>
  The handler does not join the fragments or append the ending itself: for the
  fragments \<^verbatim>\<open>a\<close> and \<^verbatim>\<open>b\<close> the positional arguments of the call are not the one joined
  string.
\<close>

theorem Sending_post_joined_counterexample:
  "map call_args
     (snd (Sending_post (sample_runtime :: int runtime) (recording True None)
             (form_request [(''data'', ''a''), (''data'', ''b'')]) [])) \<noteq>
   [[PStr (py_join '' '' [''a'', ''b''] @ CRLF)]]"
  by (simp add: Sending_post_def parse_args_def Sending_parse_loop getlist_def getitem_def
        recording_def source_def form_request_def as_text_def)

section \<open>\<^verbatim>\<open>GET /receive\<close>\<close>

text \<open>
  C3. \<^verbatim>\<open>GET /receive\<close> calls \<^verbatim>\<open>receive_str\<close> once, with no argument, so that the
  connection's defaults apply: offset 0 (the most recent record), no terminator, strip
  enabled. The response is 200 with the body \<^verbatim>\<open>{"message": "OK", "timestamp": ..., "data": ...}\<close>,
  and nothing of the request is read: any request gives what the empty one gives.
\<close>

theorem Receiving_get_most_recent:
  fixes conn :: "('c, 't) connection"
  shows "Receiving_get conn req c =
     (Inr (receive_body (fst (conn_receive_str conn [] [] c))), snd (conn_receive_str conn [] [] c)) \<and>
   respond (fst (Receiving_get conn req c)) =
     \<lparr>status = 200,
      body = JObj [(''message'', JStr ''OK''),
                   (''timestamp'', case fst (conn_receive_str conn [] [] c) of
                                     Some (ts, s) \<Rightarrow> JNum ts | None \<Rightarrow> JNull),
                   (''data'', case fst (conn_receive_str conn [] [] c) of
                                Some (ts, s) \<Rightarrow> JStr s | None \<Rightarrow> JNull)]\<rparr> \<and>
   Receiving_get conn req c = Receiving_get conn (form_request []) c \<and>
   snd (Receiving_get (recording ok (rcv :: ('t \<times> string) option)) req log) =
     log @ [Call ''receive_str'' [] []] \<and>
   bound (receive_str_defaults :: 't kwargs) [] ''num_before'' = Some (PInt 0) \<and>
   bound (receive_str_defaults :: 't kwargs) [] ''read_until'' = Some PNone \<and>
   bound (receive_str_defaults :: 't kwargs) [] ''strip'' = Some (PBool True)"
  by (simp add: Receiving_get_def receive_body_def recording_def bound_def receive_str_defaults_def
        split: prod.splits)

text \<open>A request carrying a parameter all the same: it is ignored.\<close>

theorem Receiving_get_most_recent_witness:
  "respond (fst (Receiving_get (recording True (Some (1636000000 :: int, ''22.5 C'')))
                   (form_request [(''num_before'', ''3'')]) [])) =
     \<lparr>status = 200,
      body = JObj [(''message'', JStr ''OK''), (''timestamp'', JNum 1636000000),
                   (''data'', JStr ''22.5 C'')]\<rparr> \<and>
   snd (Receiving_get (recording True (Some (1636000000 :: int, ''22.5 C'')))
          (form_request [(''num_before'', ''3'')]) []) = [Call ''receive_str'' [] []]"
  using Receiving_get_most_recent[of "recording True (Some (1636000000 :: int, ''22.5 C''))"
      "form_request [(''num_before'', ''3'')]" "[]" True "Some (1636000000 :: int, ''22.5 C'')" "[]"]
  by (simp add: recording_def receive_body_def)

section \<open>Validation comes first\<close>

text \<open>
  C4. A \<^verbatim>\<open>POST /send\<close> request without the field \<^verbatim>\<open>data\<close> is rejected by the parser with
  status 400, the connection's state is the one before the request, and a recording
  connection has recorded no call.
\<close>

theorem Sending_post_requires_data:
  fixes conn :: "('c, 't) connection"
  assumes "''data'' \<notin> fst ` set (source req)"
  shows "Sending_post py conn req c =
           (Inl (HTTPException 400
                  (JObj [(''message'',
                          JObj [(''data'', JStr ''Data the serial port should send; is required'')])])),
            c) \<and>
         status (respond (fst (Sending_post py conn req c))) = 400 \<and>
         snd (Sending_post py (recording ok (rcv :: ('t \<times> string) option)) req log) = log"
  using assms
  by (simp add: Sending_post_missing_data getlist_Nil_iff abort_def)

text \<open>A request with an ending and no data.\<close>

theorem Sending_post_requires_data_witness:
  "''data'' \<notin> fst ` set (source (form_request [(''ending'', ''x'')] :: int request)) \<and>
   status (respond (fst (Sending_post (sample_runtime :: int runtime) (recording True None)
                           (form_request [(''ending'', ''x'')]) []))) = 400 \<and>
   snd (Sending_post (sample_runtime :: int runtime) (recording True None)
          (form_request [(''ending'', ''x'')]) []) = []"
proof -
  have h: "''data'' \<notin> fst ` set (source (form_request [(''ending'', ''x'')] :: int request))"
    by (simp add: source_def form_request_def)
  show ?thesis
    using h Sending_post_requires_data[OF h, of sample_runtime "recording True None" "[]" True
        "None :: (int \<times> string) option" "[]"]
    by simp
qed

section \<open>\<^verbatim>\<open>/receive\<close> without a record, and its parameters\<close>

text \<open>
  C5. When the connection answers \<^verbatim>\<open>None\<close> (no record received) to the call a
  \<^verbatim>\<open>/receive\<close> request makes, the response is 200 with \<^verbatim>\<open>"timestamp"\<close> and \<^verbatim>\<open>"data"\<close> both
  null: for \<^verbatim>\<open>GET\<close>, whose call has no argument, and for a \<^verbatim>\<open>POST\<close> that passed validation,
  whose call carries the three parsed parameters.
\<close>

theorem Receiving_no_record:
  fixes conn :: "('c, 't) connection"
  shows "(fst (conn_receive_str conn [] [] c) = None \<longrightarrow>
            respond (fst (Receiving_get conn req c)) =
              \<lparr>status = 200,
               body = JObj [(''message'', JStr ''OK''), (''timestamp'', JNull), (''data'', JNull)]\<rparr>) \<and>
         (parse_args py Receiving_parser req = Inr ns \<and>
          ns ''num_before'' = Some nb \<and> ns ''read_until'' = Some ru \<and> ns ''strip'' = Some st \<and>
          fst (conn_receive_str conn [] [(''num_before'', nb), (''read_until'', ru), (''strip'', st)] c) = None \<longrightarrow>
            respond (fst (Receiving_post py conn req c)) =
              \<lparr>status = 200,
               body = JObj [(''message'', JStr ''OK''), (''timestamp'', JNull), (''data'', JNull)]\<rparr>)"
proof (intro conjI impI)
  assume "fst (conn_receive_str conn [] [] c) = None"
  then show "respond (fst (Receiving_get conn req c)) =
      \<lparr>status = 200,
       body = JObj [(''message'', JStr ''OK''), (''timestamp'', JNull), (''data'', JNull)]\<rparr>"
    by (simp add: Receiving_get_def receive_body_def case_prod_beta)
next
  assume a: "parse_args py Receiving_parser req = Inr ns \<and>
          ns ''num_before'' = Some nb \<and> ns ''read_until'' = Some ru \<and> ns ''strip'' = Some st \<and>
          fst (conn_receive_str conn [] [(''num_before'', nb), (''read_until'', ru), (''strip'', st)] c) = None"
  then have "Receiving_post py conn req c =
     (case conn_receive_str conn [] [(''num_before'', nb), (''read_until'', ru), (''strip'', st)] c of
        (res, c') \<Rightarrow> (Inr (receive_body res), c'))"
    using Receiving_post_args[of py req ns nb ru st conn c] by simp
  with a show "respond (fst (Receiving_post py conn req c)) =
      \<lparr>status = 200,
       body = JObj [(''message'', JStr ''OK''), (''timestamp'', JNull), (''data'', JNull)]\<rparr>"
    by (simp add: receive_body_def case_prod_beta)
qed

text \<open>A connection with nothing received, asked by \<^verbatim>\<open>GET\<close> and by \<^verbatim>\<open>POST\<close> with an offset.\<close>

theorem Receiving_no_record_witness:
  "fst (conn_receive_str (recording True (None :: (int \<times> string) option)) [] [] []) = None \<and>
   respond (fst (Receiving_get (recording True (None :: (int \<times> string) option)) (form_request []) [])) =
     \<lparr>status = 200,
      body = JObj [(''message'', JStr ''OK''), (''timestamp'', JNull), (''data'', JNull)]\<rparr> \<and>
   parse_args (sample_runtime :: int runtime) Receiving_parser (form_request [(''num_before'', ''2'')]) =
     Inr [''num_before'' \<mapsto> PInt 2, ''read_until'' \<mapsto> PNone, ''strip'' \<mapsto> PBool False] \<and>
   fst (conn_receive_str (recording True (None :: (int \<times> string) option)) []
          [(''num_before'', PInt 2), (''read_until'', PNone), (''strip'', PBool False)] []) = None \<and>
   respond (fst (Receiving_post (sample_runtime :: int runtime) (recording True None)
                   (form_request [(''num_before'', ''2'')]) [])) =
     \<lparr>status = 200,
      body = JObj [(''message'', JStr ''OK''), (''timestamp'', JNull), (''data'', JNull)]\<rparr>"
proof -
  have p2: "py_int (sample_runtime :: int runtime) (PStr ''2'') = Some 2"
    by (simp add: is_ascii_def int_ascii_def py_strip_def is_space_def int_unsigned_def
          is_digit_def digit_val_def)
  have v: "parse_args (sample_runtime :: int runtime) Receiving_parser
             (form_request [(''num_before'', ''2'')]) =
     Inr [''num_before'' \<mapsto> PInt 2, ''read_until'' \<mapsto> PNone, ''strip'' \<mapsto> PBool False]"
    by (simp add: parse_args_def Receiving_parse_loop getlist_def source_def form_request_def
          convert_def p2 del: py_int.simps)
  have g: "fst (conn_receive_str (recording True (None :: (int \<times> string) option)) [] [] []) = None"
    by (simp add: recording_def)
  have r: "fst (conn_receive_str (recording True (None :: (int \<times> string) option)) []
          [(''num_before'', PInt 2), (''read_until'', PNone), (''strip'', PBool False)] []) = None"
    by (simp add: recording_def)
  show ?thesis
    using v g r
      Receiving_no_record[of "recording True (None :: (int \<times> string) option)" "[]"
        "form_request [(''num_before'', ''2'')]" sample_runtime
        "[''num_before'' \<mapsto> PInt 2, ''read_until'' \<mapsto> PNone, ''strip'' \<mapsto> PBool False]"
        "PInt 2" PNone "PBool False"]
      Receiving_no_record[of "recording True (None :: (int \<times> string) option)" "[]" "form_request []"]
    by simp
qed

text \<open>
  C6, as the code has it. A \<^verbatim>\<open>POST /receive\<close> request that passes validation makes one
  call of \<^verbatim>\<open>receive_str\<close> and shapes the response from what it returns. The call's keyword
  arguments are the parsed parameters, passed unchanged: each is its default when the
  parameter is absent (0, \<^verbatim>\<open>None\<close>, false), \<^verbatim>\<open>None\<close> when the first value supplied is a JSON
  null, and otherwise the first value supplied converted by \<^verbatim>\<open>int\<close>, \<^verbatim>\<open>str\<close> and \<^verbatim>\<open>bool\<close>. So
  \<^verbatim>\<open>num_before\<close> is always an integer or \<^verbatim>\<open>None\<close>: the decimal numeral of \<open>n\<close> is passed as
  \<open>n\<close>, and a JSON integer as itself.
\<close>

theorem Receiving_post_passes_parameters:
  fixes conn :: "('c, 't) connection"
  assumes "parse_args py Receiving_parser req = Inr ns"
  shows "\<exists>nb.
           (case getlist ''num_before'' (source req) of
              [] \<Rightarrow> nb = PInt 0
            | v # vs \<Rightarrow> if v = PNone then nb = PNone
                        else \<exists>n. py_int py v = Some n \<and> nb = PInt n) \<and>
           (\<forall>n vs. getlist ''num_before'' (source req) = PStr (decimal n) # vs \<longrightarrow>
                   length (decimal n) \<le> 640 \<longrightarrow> nb = PInt (int n)) \<and>
           (\<forall>i vs. getlist ''num_before'' (source req) = PInt i # vs \<longrightarrow> nb = PInt i) \<and>
           Receiving_post py conn req c =
             (let r = conn_receive_str conn []
                        [(''num_before'', nb),
                         (''read_until'',
                          case getlist ''read_until'' (source req) of [] \<Rightarrow> PNone | v # vs \<Rightarrow> as_text py v),
                         (''strip'',
                          case getlist ''strip'' (source req) of
                            [] \<Rightarrow> PBool False | v # vs \<Rightarrow> as_bool py v)] c
              in (Inr (receive_body (fst r)), snd r))"
proof -
  from Receiving_parse_args_valid(1)[OF assms] obtain nb where
    nb: "ns ''num_before'' = Some nb" and
    n: "case getlist ''num_before'' (source req) of
          [] \<Rightarrow> nb = PInt 0
        | v # vs \<Rightarrow> if v = PNone then nb = PNone else \<exists>n. py_int py v = Some n \<and> nb = PInt n"
    by blast
  have post: "Receiving_post py conn req c =
     (case conn_receive_str conn []
             [(''num_before'', nb),
              (''read_until'',
               case getlist ''read_until'' (source req) of [] \<Rightarrow> PNone | v # vs \<Rightarrow> as_text py v),
              (''strip'',
               case getlist ''strip'' (source req) of [] \<Rightarrow> PBool False | v # vs \<Rightarrow> as_bool py v)] c of
        (res, c') \<Rightarrow> (Inr (receive_body res), c'))"
    by (rule Receiving_post_args[OF assms nb Receiving_parse_args_valid(2)[OF assms]
          Receiving_parse_args_valid(3)[OF assms]])
  have dec: "\<forall>n vs. getlist ''num_before'' (source req) = PStr (decimal n) # vs \<longrightarrow>
                   length (decimal n) \<le> 640 \<longrightarrow> nb = PInt (int n)"
    using n by (auto simp: py_int_decimal simp del: py_int.simps)
  have num: "\<forall>i vs. getlist ''num_before'' (source req) = PInt i # vs \<longrightarrow> nb = PInt i"
    using n by auto
  from n dec num post show ?thesis
    by (intro exI[of _ nb]) (simp add: Let_def case_prod_beta)
qed

text \<open>
  With \<^verbatim>\<open>num_before=1\<close> the call asks for offset 1, the record before the most recent one,
  and with \<^verbatim>\<open>num_before=25\<close> for offset 25.
\<close>

theorem Receiving_post_passes_parameters_witness:
  "parse_args (sample_runtime :: int runtime) Receiving_parser (form_request [(''num_before'', ''1'')]) =
     Inr [''num_before'' \<mapsto> PInt 1, ''read_until'' \<mapsto> PNone, ''strip'' \<mapsto> PBool False] \<and>
   snd (Receiving_post (sample_runtime :: int runtime) (recording True (Some (7, ''x'')))
          (form_request [(''num_before'', ''1'')]) []) =
     [Call ''receive_str'' [] [(''num_before'', PInt 1), (''read_until'', PNone), (''strip'', PBool False)]] \<and>
   snd (Receiving_post (sample_runtime :: int runtime) (recording True (Some (7, ''x'')))
          (form_request [(''num_before'', ''25''), (''read_until'', '';'')]) []) =
     [Call ''receive_str'' []
        [(''num_before'', PInt 25), (''read_until'', PStr '';''), (''strip'', PBool False)]]"
proof -
  have p1: "py_int (sample_runtime :: int runtime) (PStr ''1'') = Some 1"
    by (simp add: is_ascii_def int_ascii_def py_strip_def is_space_def int_unsigned_def
          is_digit_def digit_val_def)
  have p25: "py_int (sample_runtime :: int runtime) (PStr ''25'') = Some 25"
    by (simp add: is_ascii_def int_ascii_def py_strip_def is_space_def int_unsigned_def
          is_digit_def digit_val_def)
  have v: "parse_args (sample_runtime :: int runtime) Receiving_parser
             (form_request [(''num_before'', ''1'')]) =
     Inr [''num_before'' \<mapsto> PInt 1, ''read_until'' \<mapsto> PNone, ''strip'' \<mapsto> PBool False]"
    by (simp add: parse_args_def Receiving_parse_loop getlist_def source_def form_request_def
          convert_def p1 del: py_int.simps)
  have w: "snd (Receiving_post (sample_runtime :: int runtime) (recording True (Some (7, ''x'')))
          (form_request [(''num_before'', ''25''), (''read_until'', '';'')]) []) =
     [Call ''receive_str'' []
        [(''num_before'', PInt 25), (''read_until'', PStr '';''), (''strip'', PBool False)]]"
    by (simp add: Receiving_post_def parse_args_def Receiving_parse_loop getlist_def source_def
          form_request_def convert_def p25 getitem_def recording_def as_text_def
          del: py_int.simps)
  from Receiving_post_passes_parameters[OF v, of "recording True (Some (7, ''x''))" "[]"]
  obtain nb where
    nb: "case getlist ''num_before'' (source (form_request [(''num_before'', ''1'')] :: int request)) of
           [] \<Rightarrow> nb = PInt 0
         | v # vs \<Rightarrow> if v = PNone then nb = PNone
                     else \<exists>n. py_int (sample_runtime :: int runtime) v = Some n \<and> nb = PInt n" and
    post: "Receiving_post (sample_runtime :: int runtime) (recording True (Some (7, ''x'')))
             (form_request [(''num_before'', ''1'')]) [] =
             (let r = conn_receive_str (recording True (Some (7, ''x''))) []
                        [(''num_before'', nb),
                         (''read_until'',
                          case getlist ''read_until''
                                 (source (form_request [(''num_before'', ''1'')] :: int request)) of
                            [] \<Rightarrow> PNone | v # vs \<Rightarrow> as_text sample_runtime v),
                         (''strip'',
                          case getlist ''strip''
                                 (source (form_request [(''num_before'', ''1'')] :: int request)) of
                            [] \<Rightarrow> PBool False | v # vs \<Rightarrow> as_bool sample_runtime v)] []
              in (Inr (receive_body (fst r)), snd r))"
    by blast
  from nb have "nb = PInt 1"
    by (simp add: getlist_def source_def form_request_def p1 del: py_int.simps)
  with post v w show ?thesis
    by (simp add: getlist_def source_def form_request_def recording_def Let_def)
qed

text \<open>
  The parameter is not always an integer: a JSON null for \<^verbatim>\<open>num_before\<close> passes validation
  (the response is 200) and is handed to \<^verbatim>\<open>receive_str\<close> as \<^verbatim>\<open>None\<close>.
\<close>

theorem Receiving_post_num_before_counterexample:
  "status (respond (fst (Receiving_post (sample_runtime :: int runtime) (recording True None)
                           (json_request [(''num_before'', PNone)]) []))) = 200 \<and>
   map (map_option is_PInt)
     (map (call_kwarg ''num_before'')
        (snd (Receiving_post (sample_runtime :: int runtime) (recording True None)
                (json_request [(''num_before'', PNone)]) []))) = [Some False]"
  by (simp add: Receiving_post_def parse_args_def Receiving_parse_loop getlist_def source_def
        json_request_def convert_def getitem_def recording_def receive_body_def)

text \<open>
  C10, as the code has it. In a valid \<^verbatim>\<open>POST /receive\<close> request the \<^verbatim>\<open>strip\<close> argument of
  the call is \<^verbatim>\<open>bool\<close> of the first value supplied: true for every non-empty string, the
  words \<^verbatim>\<open>false\<close> and \<^verbatim>\<open>0\<close> included. It is false when the parameter is absent, and when
  the first value supplied is false under \<^verbatim>\<open>bool\<close>: the empty string, but also the JSON
  values \<^verbatim>\<open>false\<close> and zero. A JSON null is passed on as \<^verbatim>\<open>None\<close>.
\<close>

theorem Receiving_post_strip_coercion:
  assumes "parse_args py Receiving_parser req = Inr ns"
  shows "\<exists>kw. snd (Receiving_post py (recording ok rcv) req log) = log @ [Call ''receive_str'' [] kw] \<and>
              map_of kw ''strip'' =
                Some (case getlist ''strip'' (source req) of
                        [] \<Rightarrow> PBool False
                      | v # vs \<Rightarrow> if v = PNone then PNone else PBool (py_bool py v)) \<and>
              (\<forall>s vs. getlist ''strip'' (source req) = PStr s # vs \<longrightarrow>
                      map_of kw ''strip'' = Some (PBool (s \<noteq> []))) \<and>
              (\<forall>b vs. getlist ''strip'' (source req) = PBool b # vs \<longrightarrow>
                      map_of kw ''strip'' = Some (PBool b)) \<and>
              (\<forall>i vs. getlist ''strip'' (source req) = PInt i # vs \<longrightarrow>
                      map_of kw ''strip'' = Some (PBool (i \<noteq> 0)))"
proof -
  from Receiving_parse_args_valid(1)[OF assms] obtain nb where
    nb: "ns ''num_before'' = Some nb"
    by blast
  have "Receiving_post py (recording ok rcv) req log =
     (case conn_receive_str (recording ok rcv) []
             [(''num_before'', nb),
              (''read_until'',
               case getlist ''read_until'' (source req) of [] \<Rightarrow> PNone | v # vs \<Rightarrow> as_text py v),
              (''strip'',
               case getlist ''strip'' (source req) of [] \<Rightarrow> PBool False | v # vs \<Rightarrow> as_bool py v)] log of
        (res, c') \<Rightarrow> (Inr (receive_body res), c'))"
    by (rule Receiving_post_args[OF assms nb Receiving_parse_args_valid(2)[OF assms]
          Receiving_parse_args_valid(3)[OF assms]])
  then show ?thesis
    by (auto simp: recording_def as_bool_def split: list.splits)
qed

text \<open>The string \<^verbatim>\<open>false\<close> switches stripping on.\<close>

theorem Receiving_post_strip_coercion_witness:
  "parse_args (sample_runtime :: int runtime) Receiving_parser (form_request [(''strip'', ''false'')]) =
     Inr [''num_before'' \<mapsto> PInt 0, ''read_until'' \<mapsto> PNone, ''strip'' \<mapsto> PBool True] \<and>
   map (call_kwarg ''strip'')
     (snd (Receiving_post (sample_runtime :: int runtime) (recording True None)
             (form_request [(''strip'', ''false'')]) [])) = [Some (PBool True)]"
proof -
  have v: "parse_args (sample_runtime :: int runtime) Receiving_parser
             (form_request [(''strip'', ''false'')]) =
     Inr [''num_before'' \<mapsto> PInt 0, ''read_until'' \<mapsto> PNone, ''strip'' \<mapsto> PBool True]"
    by (simp add: parse_args_def Receiving_parse_loop getlist_def source_def form_request_def
          as_bool_def)
  from Receiving_post_strip_coercion[OF v, of True None "[]"] obtain kw where
    "snd (Receiving_post (sample_runtime :: int runtime) (recording True None)
            (form_request [(''strip'', ''false'')]) []) = [Call ''receive_str'' [] kw]"
    and "map_of kw ''strip'' =
           Some (case getlist ''strip'' (source (form_request [(''strip'', ''false'')] :: int request)) of
                   [] \<Rightarrow> PBool False
                 | v # vs \<Rightarrow> if v = PNone then PNone else PBool (py_bool sample_runtime v))"
    by auto
  with v show ?thesis
    by (simp add: getlist_def source_def form_request_def)
qed

text \<open>
  False is not passed only for an absent or empty value: the JSON value \<^verbatim>\<open>false\<close> is
  supplied, is not the empty string, and \<^verbatim>\<open>strip\<close> is passed as false.
\<close>

theorem Receiving_post_strip_counterexample:
  "\<not> (map (call_kwarg ''strip'')
        (snd (Receiving_post (sample_runtime :: int runtime) (recording True None)
                (json_request [(''strip'', PBool False)]) [])) = [Some (PBool False)] \<longrightarrow>
      getlist ''strip'' (source (json_request [(''strip'', PBool False)] :: int request)) = [] \<or>
      getlist ''strip'' (source (json_request [(''strip'', PBool False)] :: int request)) = [PStr []])"
  by (simp add: Receiving_post_def parse_args_def Receiving_parse_loop getlist_def source_def
        json_request_def convert_def getitem_def recording_def as_bool_def)

section \<open>Construction and registration\<close>

text \<open>
  C7. \<^verbatim>\<open>Builtins(handler)\<close> raises \<^verbatim>\<open>TypeError\<close> in the constructor itself when
  \<^verbatim>\<open>handler.conn\<close> is not a \<^verbatim>\<open>Connection\<close>, and succeeds, with the endpoints added, when
  it is one.
\<close>

theorem Builtins_init_type_check:
  fixes h :: "('c, 't) RestApiHandler"
  shows "(\<forall>cls. conn h = Other_instance cls \<longrightarrow>
            fst (Builtins_init py h) =
              Inl (TypeError ''The connection object passed into the handler must be a Connection type'')) \<and>
         (\<forall>cn. conn h = Connection_instance cn \<longrightarrow> fst (Builtins_init py h) = Inr (add_all py h))"
  by (simp add: Builtins_init_def Let_def)

text \<open>A handler around a string, and one around a connection.\<close>

theorem Builtins_init_type_check_witness:
  "conn \<lparr>conn = (Other_instance ''str'' :: (int call list, int) pyobj), all_endpoints = []\<rparr> =
     Other_instance ''str'' \<and>
   fst (Builtins_init (sample_runtime :: int runtime)
          \<lparr>conn = (Other_instance ''str'' :: (int call list, int) pyobj), all_endpoints = []\<rparr>) =
     Inl (TypeError ''The connection object passed into the handler must be a Connection type'') \<and>
   conn \<lparr>conn = Connection_instance (recording True (None :: (int \<times> string) option)),
         all_endpoints = []\<rparr> =
     Connection_instance (recording True None) \<and>
   (\<exists>b. fst (Builtins_init (sample_runtime :: int runtime)
                 \<lparr>conn = Connection_instance (recording True (None :: (int \<times> string) option)),
                  all_endpoints = []\<rparr>) = Inr b)"
  using Builtins_init_type_check
      [where py = sample_runtime and
         h = "\<lparr>conn = (Other_instance ''str'' :: (int call list, int) pyobj), all_endpoints = []\<rparr>"]
    Builtins_init_type_check
      [where py = sample_runtime and
         h = "\<lparr>conn = Connection_instance (recording True (None :: (int \<times> string) option)),
              all_endpoints = []\<rparr>"]
  by simp

text \<open>
  C8. Registration is the walk over the fixed table of \<^verbatim>\<open>/send\<close> and \<^verbatim>\<open>/receive\<close>: these
  two entries are appended to the handler's endpoints, in this order, and nothing else
  changes. Of the documented endpoints only these two become registered by it, and what
  the handler holds for \<^verbatim>\<open>/receive/all\<close>, \<^verbatim>\<open>/get\<close>, \<^verbatim>\<open>/send/get_first\<close>, \<^verbatim>\<open>/get/wait\<close>,
  \<^verbatim>\<open>/send/get\<close> and \<^verbatim>\<open>/list_ports\<close> is what it held before.
\<close>

theorem add_all_registers_send_and_receive:
  fixes h :: "('c, 't) RestApiHandler"
  shows "add_all py h =
           fold (\<lambda>(p, f). add_endpoint p f) [(''/send'', send py), (''/receive'', receive py)] h \<and>
         all_endpoints (add_all py h) =
           all_endpoints h @ [(''/send'', send py), (''/receive'', receive py)] \<and>
         conn (add_all py h) = conn h \<and>
         (\<forall>cn. conn h = Connection_instance cn \<longrightarrow> snd (Builtins_init py h) = add_all py h) \<and>
         (\<forall>p \<in> set documented_endpoints.
            p \<in> fst ` set (all_endpoints (add_all py h)) \<longleftrightarrow>
            p \<in> fst ` set (all_endpoints h) \<or> p = ''/send'' \<or> p = ''/receive'') \<and>
         (\<forall>p \<in> set [''/receive/all'', ''/get'', ''/send/get_first'', ''/get/wait'', ''/send/get'',
                      ''/list_ports''].
            map_of (all_endpoints (add_all py h)) p = map_of (all_endpoints h) p)"
  by (auto simp: add_all_def add_endpoint_def Builtins_init_def Let_def map_add_def
        split: option.splits)

text \<open>Construction on a handler that has no endpoint yet.\<close>

theorem add_all_registers_send_and_receive_witness:
  "conn \<lparr>conn = Connection_instance (recording True (None :: (int \<times> string) option)),
         all_endpoints = []\<rparr> = Connection_instance (recording True None) \<and>
   map fst (all_endpoints
     (snd (Builtins_init (sample_runtime :: int runtime)
             \<lparr>conn = Connection_instance (recording True (None :: (int \<times> string) option)),
              all_endpoints = []\<rparr>))) = [''/send'', ''/receive''] \<and>
   filter (\<lambda>p. p \<in> fst ` set (all_endpoints
     (snd (Builtins_init (sample_runtime :: int runtime)
             \<lparr>conn = Connection_instance (recording True (None :: (int \<times> string) option)),
              all_endpoints = []\<rparr>)))) documented_endpoints = [''/send'', ''/receive''] \<and>
   map_of (all_endpoints
     (snd (Builtins_init (sample_runtime :: int runtime)
             \<lparr>conn = Connection_instance (recording True (None :: (int \<times> string) option)),
              all_endpoints = []\<rparr>))) ''/list_ports'' = None"
  using add_all_registers_send_and_receive
      [where py = sample_runtime and
         h = "\<lparr>conn = Connection_instance (recording True (None :: (int \<times> string) option)),
              all_endpoints = []\<rparr>"]
  by (simp add: documented_endpoints_def add_all_def add_endpoint_def Builtins_init_def)

text \<open>
  C9. When the constructor rejects the handler's connection, the handler is returned as
  it was given: no endpoint has been added.
\<close>

theorem Builtins_init_failure_leaves_handler:
  fixes h :: "('c, 't) RestApiHandler"
  assumes "conn h = Other_instance cls"
  shows "Builtins_init py h =
           (Inl (TypeError ''The connection object passed into the handler must be a Connection type''), h) \<and>
         all_endpoints (snd (Builtins_init py h)) = all_endpoints h"
  using assms by (simp add: Builtins_init_def)

text \<open>A handler that already has an endpoint of its own keeps exactly that one.\<close>

theorem Builtins_init_failure_leaves_handler_witness:
  "conn \<lparr>conn = (Other_instance ''NoneType'' :: (int call list, int) pyobj),
         all_endpoints = [(''/hello'', receive sample_runtime)]\<rparr> = Other_instance ''NoneType'' \<and>
   map fst (all_endpoints
     (snd (Builtins_init (sample_runtime :: int runtime)
             \<lparr>conn = (Other_instance ''NoneType'' :: (int call list, int) pyobj),
              all_endpoints = [(''/hello'', receive sample_runtime)]\<rparr>))) = [''/hello'']"
proof -
  have h: "conn \<lparr>conn = (Other_instance ''NoneType'' :: (int call list, int) pyobj),
         all_endpoints = [(''/hello'', receive sample_runtime)]\<rparr> = Other_instance ''NoneType''"
    by simp
  show ?thesis
    using h Builtins_init_failure_leaves_handler[OF h, where py = sample_runtime]
    by simp
qed

end
